theory Spec2Isabelle
  imports Main
begin

section \<open>JavaScript string operations used by the plugin\<close>

text \<open>
  A JavaScript string is a sequence of code units. The model uses \<^typ>\<open>string\<close>: each
  \<^typ>\<open>char\<close> stands for one code unit in the range 0..255. The operations below are the
  ones \<^verbatim>\<open>main.js\<close> calls on strings: \<^verbatim>\<open>trim\<close>, \<^verbatim>\<open>startsWith\<close>, \<^verbatim>\<open>endsWith\<close>,
  \<^verbatim>\<open>includes\<close>, \<^verbatim>\<open>slice(0, -1)\<close>, \<^verbatim>\<open>replace\<close> with a string pattern,
  \<^verbatim>\<open>replace(/\s+/g, '-')\<close> and the decimal rendering of a number in a template literal.
\<close>

text \<open>
  The code units below 256 that the regular expression class \<^verbatim>\<open>\s\<close> and
  \<^verbatim>\<open>String.prototype.trim\<close> treat as white space: TAB, LF, VT, FF, CR, SPACE and NBSP.
\<close>

definition is_space :: "char \<Rightarrow> bool" where
  "is_space c = (c = CHR 0x09 \<or> c = CHR 0x0A \<or> c = CHR 0x0B \<or> c = CHR 0x0C
     \<or> c = CHR 0x0D \<or> c = CHR 0x20 \<or> c = CHR 0xA0)"

definition trim :: "string \<Rightarrow> string" where
  "trim s = rev (dropWhile is_space (rev (dropWhile is_space s)))"

fun startsWith :: "string \<Rightarrow> string \<Rightarrow> bool" where
  "startsWith s [] = True"
| "startsWith [] (p # ps) = False"
| "startsWith (c # cs) (p # ps) = (c = p \<and> startsWith cs ps)"

definition endsWith :: "string \<Rightarrow> string \<Rightarrow> bool" where
  "endsWith s p = startsWith (rev s) (rev p)"

text \<open>\<^verbatim>\<open>s.includes(p)\<close>: \<open>p\<close> occurs in \<open>s\<close> as a contiguous substring.\<close>

fun str_includes :: "string \<Rightarrow> string \<Rightarrow> bool" where
  "str_includes [] p = (p = [])"
| "str_includes (c # cs) p = (startsWith (c # cs) p \<or> str_includes cs p)"

text \<open>
  The split of \<open>s\<close> at the first (leftmost) occurrence of \<open>p\<close>: the text before the match
  and the text after it; \<open>None\<close> when \<open>p\<close> does not occur.
\<close>

fun split_first :: "string \<Rightarrow> string \<Rightarrow> (string \<times> string) option" where
  "split_first [] p = (if p = [] then Some ([], []) else None)"
| "split_first (c # cs) p =
     (if startsWith (c # cs) p then Some ([], drop (length p) (c # cs))
      else (case split_first cs p of
              None \<Rightarrow> None
            | Some (b, a) \<Rightarrow> Some (c # b, a)))"

text \<open>
  \<^verbatim>\<open>GetSubstitution\<close> of ECMAScript for a string pattern (no capture groups, no named
  groups): in the replacement text \<^verbatim>\<open>$$\<close> stands for a dollar sign, \<^verbatim>\<open>$&\<close> for the matched
  text, \<^verbatim>\<open>$`\<close> for the text before the match and \<^verbatim>\<open>$'\<close> for the text after it. Any other
  dollar sign (also one followed by digits or by \<^verbatim>\<open><\<close>) is copied as it is.
\<close>

fun GetSubstitution :: "string \<Rightarrow> string \<Rightarrow> string \<Rightarrow> string \<Rightarrow> string" where
  "GetSubstitution matched pre post [] = []"
| "GetSubstitution matched pre post [c] = [c]"
| "GetSubstitution matched pre post (c # d # rest) =
     (if c = CHR ''$'' then
        (if d = CHR ''$'' then CHR ''$'' # GetSubstitution matched pre post rest
         else if d = CHR ''&'' then matched @ GetSubstitution matched pre post rest
         else if d = CHR 0x60 then pre @ GetSubstitution matched pre post rest
         else if d = CHR 0x27 then post @ GetSubstitution matched pre post rest
         else c # GetSubstitution matched pre post (d # rest))
      else c # GetSubstitution matched pre post (d # rest))"

text \<open>
  \<^verbatim>\<open>s.replace(p, t)\<close> with a string pattern \<open>p\<close> and a string replacement \<open>t\<close>: only the
  first occurrence is replaced, and the replacement text goes through \<^const>\<open>GetSubstitution\<close>.
\<close>

definition str_replace :: "string \<Rightarrow> string \<Rightarrow> string \<Rightarrow> string" where
  "str_replace s p t =
     (case split_first s p of
        None \<Rightarrow> s
      | Some (b, a) \<Rightarrow> b @ GetSubstitution p b a t @ a)"

text \<open>\<^verbatim>\<open>s.replace(/\s+/g, '-')\<close>: every maximal run of white space becomes one hyphen.\<close>

function replace_ws :: "string \<Rightarrow> string" where
  "replace_ws [] = []"
| "replace_ws (c # cs) =
     (if is_space c then CHR ''-'' # replace_ws (dropWhile is_space cs)
      else c # replace_ws cs)"
  by pat_completeness auto
termination
  by (relation "measure length") (auto simp: length_dropWhile_le less_Suc_eq_le)

text \<open>The decimal rendering of a non-negative integer, as a template literal prints it.\<close>

definition digit_char :: "nat \<Rightarrow> char" where
  "digit_char d =
     (if d = 0 then CHR ''0'' else if d = 1 then CHR ''1'' else if d = 2 then CHR ''2''
      else if d = 3 then CHR ''3'' else if d = 4 then CHR ''4'' else if d = 5 then CHR ''5''
      else if d = 6 then CHR ''6'' else if d = 7 then CHR ''7'' else if d = 8 then CHR ''8''
      else CHR ''9'')"

function show_nat :: "nat \<Rightarrow> string" where
  "show_nat n = (if n < 10 then [digit_char n] else show_nat (n div 10) @ [digit_char (n mod 10)])"
  by pat_completeness auto
termination
  by (relation "measure id") auto

declare show_nat.simps [simp del]


section \<open>Data model\<close>

text \<open>The persisted settings (\<^verbatim>\<open>DEFAULT_SETTINGS\<close> gives the defaults).\<close>

record settings =
  githubUser :: string
  githubRepo :: string
  githubToken :: string
  folderPath :: string
  branch :: string

definition DEFAULT_SETTINGS :: settings where
  "DEFAULT_SETTINGS =
     \<lparr>githubUser = [], githubRepo = [], githubToken = [], folderPath = [], branch = ''main''\<rparr>"

text \<open>
  The object handed to \<^verbatim>\<open>processUpload\<close>: its fields \<^verbatim>\<open>name\<close>, \<^verbatim>\<open>type\<close>, \<^verbatim>\<open>base64\<close>
  (absent on a clipboard \<^verbatim>\<open>File\<close>) and \<^verbatim>\<open>size\<close>, and whether it is an instance of
  \<^verbatim>\<open>File\<close>.
\<close>

record fileObj =
  name :: string
  ftype :: string
  base64 :: "string option"
  fsize :: nat
  instanceof_File :: bool

text \<open>
  The editor of the host: the text of the note and the selected range, as offsets into the
  text. \<^verbatim>\<open>replaceSelection\<close> puts the given text in place of the selected range and leaves
  the cursor behind it; \<^verbatim>\<open>setValue\<close> replaces the whole text (where the host puts the
  cursor afterwards is not modelled: the offsets are kept).
\<close>

record editor =
  doc :: string
  sel_from :: nat
  sel_to :: nat

definition getValue :: "editor \<Rightarrow> string" where
  "getValue e = doc e"

definition setValue :: "string \<Rightarrow> editor \<Rightarrow> editor" where
  "setValue s e = e\<lparr>doc := s\<rparr>"

definition replaceSelection :: "string \<Rightarrow> editor \<Rightarrow> editor" where
  "replaceSelection t e =
     \<lparr>doc = take (sel_from e) (doc e) @ t @ drop (sel_to e) (doc e),
      sel_from = sel_from e + length t,
      sel_to = sel_from e + length t\<rparr>"

text \<open>
  A thrown JavaScript value, as the handlers read it: its \<^verbatim>\<open>status\<close> property (absent on
  an \<^verbatim>\<open>Error\<close> made with \<^verbatim>\<open>new Error(msg)\<close>) and its \<^verbatim>\<open>message\<close> as a template
  literal prints it.
\<close>

record js_error =
  err_status :: "nat option"
  err_message :: string

definition Error :: "string \<Rightarrow> js_error" where
  "Error m = \<lparr>err_status = None, err_message = m\<rparr>"

text \<open>
  What \<^verbatim>\<open>await obsidian.requestUrl(...)\<close> gives: a response object with a status, or a
  thrown value.
\<close>

datatype http_result = Response nat | Throws js_error

text \<open>The request handed to \<^verbatim>\<open>requestUrl\<close>; the two constant headers are left out.\<close>

record request =
  req_url :: string
  req_method :: string
  req_authorization :: string
  req_message :: string
  req_content :: "string option"
  req_branch :: string

text \<open>
  The notices shown to the user, by kind, each with the value printed in it:
  \<^item> \<open>FileTooBig size\<close>: "File too big (...MB). Limit 25MB."
  \<^item> \<open>ConfigureSettings\<close>: "Configure GitHub settings."
  \<^item> \<open>UploadingType type\<close>: "Uploading <type>..."
  \<^item> \<open>Uploaded fileName\<close>: "Uploaded: <fileName>"
  \<^item> \<open>UploadFailed message\<close>: "Upload Failed: <message>"
  \<^item> \<open>MobileUploadDetected name\<close>: "Mobile Upload Detected: <name>"
\<close>

datatype notice =
  FileTooBig nat
| ConfigureSettings
| UploadingType string
| Uploaded string
| UploadFailed string
| MobileUploadDetected string

text \<open>
  What the surroundings supply to one run of \<^verbatim>\<open>processUpload\<close>: the two readings of
  \<^verbatim>\<open>Date.now()\<close>, the outcome of \<^verbatim>\<open>fileToBase64\<close>, the outcome of \<^verbatim>\<open>requestUrl\<close>,
  and what happens to the editor while the handler awaits the encoding and the upload
  (the user keeps typing; nothing locks the buffer).
\<close>

record env =
  now_placeholder :: nat
  now_fileName :: nat
  fileToBase64_result :: "js_error + string"
  requestUrl_result :: http_result
  concurrent_edit :: "editor \<Rightarrow> editor"

text \<open>What one run of \<^verbatim>\<open>processUpload\<close> leaves behind, with its return value.\<close>

record outcome =
  success :: bool
  final :: editor
  notices :: "notice list"
  requests :: "request list"


section \<open>The upload orchestrator of \<^verbatim>\<open>main.js\<close>\<close>

subsection \<open>\<^verbatim>\<open>uploadToGithub\<close>\<close>

text \<open>The request that \<^verbatim>\<open>uploadToGithub\<close> sends.\<close>

definition uploadToGithub_request ::
  "string \<Rightarrow> string \<Rightarrow> string \<Rightarrow> string \<Rightarrow> string \<Rightarrow> string option \<Rightarrow> request" where
  "uploadToGithub_request user repo token branch' path content =
     \<lparr>req_url = ''https://api.github.com/repos/'' @ user @ ''/'' @ repo @ ''/contents/'' @ path,
      req_method = ''PUT'',
      req_authorization = ''token '' @ token,
      req_message = ''Upload '' @ path,
      req_content = content,
      req_branch = branch'\<rparr>"

text \<open>
  The \<^verbatim>\<open>try\<close> block: the awaited request throws, or gives a response whose status is
  checked against 200 and 201.
\<close>

definition uploadToGithub_try :: "http_result \<Rightarrow> js_error + unit" where
  "uploadToGithub_try r =
     (case r of
        Throws e \<Rightarrow> Inl e
      | Response st \<Rightarrow>
          (if st \<noteq> 200 \<and> st \<noteq> 201 then Inl (Error (''GitHub Status '' @ show_nat st))
           else Inr ()))"

text \<open>The \<^verbatim>\<open>catch\<close> block: three statuses get a message of their own, the rest is re-thrown.\<close>

definition uploadToGithub_catch :: "js_error \<Rightarrow> js_error" where
  "uploadToGithub_catch e =
     (if err_status e = Some 404 then Error ''Repo not found (404). Check Username/Repo.''
      else if err_status e = Some 401 then Error ''Invalid Token (401).''
      else if err_status e = Some 413 then Error ''File too large (413).''
      else e)"

definition uploadToGithub :: "http_result \<Rightarrow> js_error + unit" where
  "uploadToGithub r =
     (case uploadToGithub_try r of
        Inl e \<Rightarrow> Inl (uploadToGithub_catch e)
      | Inr u \<Rightarrow> Inr u)"

subsection \<open>\<^verbatim>\<open>processUpload\<close>\<close>

text \<open>The placeholder: \<^verbatim>\<open>![Uploading ${fileObj.name}...](${Date.now()})\<close>.\<close>

definition placeholder_text :: "string \<Rightarrow> nat \<Rightarrow> string" where
  "placeholder_text nm now = ''![Uploading '' @ nm @ ''...]('' @ show_nat now @ '')''"

text \<open>\<^verbatim>\<open>fileName\<close>: the time stamp, a hyphen, and the name with its white space replaced.\<close>

definition fileName_of :: "nat \<Rightarrow> string \<Rightarrow> string" where
  "fileName_of now nm = show_nat now @ ''-'' @ replace_ws nm"

text \<open>\<^verbatim>\<open>folder\<close>: the trimmed setting without one trailing slash.\<close>

definition folder_of :: "string \<Rightarrow> string" where
  "folder_of fp = (let folder = trim fp in if endsWith folder ''/'' then butlast folder else folder)"

text \<open>\<^verbatim>\<open>path\<close>: the file name under the folder, or the file name alone for an empty folder.\<close>

definition path_of :: "string \<Rightarrow> nat \<Rightarrow> string \<Rightarrow> string" where
  "path_of fp now nm =
     (let fileName = fileName_of now nm; folder = folder_of fp
      in if folder \<noteq> [] then folder @ ''/'' @ fileName else fileName)"

definition rawUrl_of :: "string \<Rightarrow> string \<Rightarrow> string \<Rightarrow> string \<Rightarrow> string" where
  "rawUrl_of user repo branch' path =
     ''https://raw.githubusercontent.com/'' @ user @ ''/'' @ repo @ ''/'' @ branch' @ ''/'' @ path"

definition image_embed :: "string \<Rightarrow> string" where
  "image_embed rawUrl = ''![]('' @ rawUrl @ '')''"

definition video_embed :: "string \<Rightarrow> string" where
  "video_embed rawUrl = ''<video src='' @ [CHR 0x22] @ rawUrl @ [CHR 0x22] @ '' controls></video>''"

definition embedCode_of :: "string \<Rightarrow> string \<Rightarrow> string" where
  "embedCode_of ty rawUrl =
     (if startsWith ty ''image/'' then image_embed rawUrl else video_embed rawUrl)"

text \<open>The data to upload: the \<^verbatim>\<open>base64\<close> field, or the encoding of a \<^verbatim>\<open>File\<close> without one.\<close>

definition base64Data_of :: "env \<Rightarrow> fileObj \<Rightarrow> js_error + string option" where
  "base64Data_of ev f =
     (if (base64 f = None \<or> base64 f = Some []) \<and> instanceof_File f then
        (case fileToBase64_result ev of Inl e \<Rightarrow> Inl e | Inr b \<Rightarrow> Inr (Some b))
      else Inr (base64 f))"

text \<open>The first edit: the placeholder goes in at the cursor, or in place of the given link.\<close>

definition insert_placeholder :: "string \<Rightarrow> bool \<Rightarrow> string option \<Rightarrow> editor \<Rightarrow> editor" where
  "insert_placeholder placeholder isPasteEvent linkToReplace ed =
     (if isPasteEvent then replaceSelection placeholder ed
      else (case linkToReplace of
              None \<Rightarrow> ed
            | Some l \<Rightarrow>
                (if l = [] then ed
                 else setValue (str_replace (getValue ed) l placeholder) ed)))"

text \<open>The \<^verbatim>\<open>catch\<close> block of \<^verbatim>\<open>processUpload\<close>.\<close>

definition upload_failed :: "string \<Rightarrow> string \<Rightarrow> js_error \<Rightarrow> request list \<Rightarrow> editor \<Rightarrow> outcome" where
  "upload_failed placeholder nm e reqs ed =
     \<lparr>success = False,
      final = setValue (str_replace (getValue ed) placeholder (''[Upload Failed: '' @ nm @ '']'')) ed,
      notices = [UploadFailed (err_message e)],
      requests = reqs\<rparr>"

text \<open>The end of the \<^verbatim>\<open>try\<close> block, after the upload has returned.\<close>

definition upload_done :: "string \<Rightarrow> string \<Rightarrow> string \<Rightarrow> request list \<Rightarrow> editor \<Rightarrow> outcome" where
  "upload_done placeholder embedCode fileName reqs ed =
     (let currentContent = getValue ed
      in \<lparr>success = True,
          final = (if str_includes currentContent placeholder
                   then setValue (str_replace currentContent placeholder embedCode) ed
                   else replaceSelection embedCode ed),
          notices = [Uploaded fileName],
          requests = reqs\<rparr>)"

definition processUpload ::
  "env \<Rightarrow> settings \<Rightarrow> fileObj \<Rightarrow> editor \<Rightarrow> bool \<Rightarrow> string option \<Rightarrow> outcome" where
  "processUpload ev st f ed isPasteEvent linkToReplace =
     (if 25 * (1024 * 1024) < fsize f then
        \<lparr>success = False, final = ed, notices = [FileTooBig (fsize f)], requests = []\<rparr>
      else
        let user = trim (githubUser st);
            repo = trim (githubRepo st);
            token = trim (githubToken st);
            branch' = trim (branch st)
        in if user = [] \<or> repo = [] \<or> token = [] then
             \<lparr>success = False, final = ed, notices = [ConfigureSettings], requests = []\<rparr>
           else
             let placeholder = placeholder_text (name f) (now_placeholder ev);
                 ed1 = insert_placeholder placeholder isPasteEvent linkToReplace ed;
                 ed2 = concurrent_edit ev ed1
             in (case base64Data_of ev f of
                   Inl e \<Rightarrow> upload_failed placeholder (name f) e [] ed2
                 | Inr base64Data \<Rightarrow>
                     let fileName = fileName_of (now_fileName ev) (name f);
                         path = path_of (folderPath st) (now_fileName ev) (name f);
                         req = uploadToGithub_request user repo token branch' path base64Data
                     in (case uploadToGithub (requestUrl_result ev) of
                           Inl e \<Rightarrow> upload_failed placeholder (name f) e [req] ed2
                         | Inr u \<Rightarrow>
                             upload_done placeholder
                               (embedCode_of (ftype f) (rawUrl_of user repo branch' path))
                               fileName [req] ed2)))"

subsection \<open>\<^verbatim>\<open>handlePaste\<close>\<close>

text \<open>
  The paste handler looks at the first clipboard file. \<open>None\<close>: it returned before
  \<^verbatim>\<open>evt.preventDefault()\<close>, leaving the paste to the host.
\<close>

definition handlePaste :: "env \<Rightarrow> settings \<Rightarrow> fileObj list \<Rightarrow> editor \<Rightarrow> outcome option" where
  "handlePaste ev st files ed =
     (case files of
        [] \<Rightarrow> None
      | file # rest \<Rightarrow>
          (if \<not> startsWith (ftype file) ''image/'' \<and> \<not> startsWith (ftype file) ''video/'' then None
           else Some (processUpload ev st file ed True None)))"


subsection \<open>\<^verbatim>\<open>handleFileCreate\<close>: the fallback path\<close>

text \<open>
  A file of the vault (\<^verbatim>\<open>file.name\<close>, \<^verbatim>\<open>file.extension\<close>, \<^verbatim>\<open>file.stat.size\<close>), the
  active leaf of the workspace with the type of its view and its editor, and the calls the
  handler makes on the vault.
\<close>

record TFile =
  tf_name :: string
  tf_extension :: string
  tf_size :: nat

record leaf =
  viewType :: string
  leaf_editor :: editor

datatype vault_op = ReadBinary string | Delete string

text \<open>
  What the surroundings supply to one run of \<^verbatim>\<open>handleFileCreate\<close>: everything
  \<^verbatim>\<open>processUpload\<close> needs, what \<^verbatim>\<open>readBinary\<close> gives (as \<^verbatim>\<open>arrayBufferToBase64\<close>
  renders it, or the value it throws), and what happens to the editor while the handler
  awaits the read. The editor of the leaf is taken in the state it has after the delay of
  100 ms.
\<close>

record create_env =
  upload_env :: env
  readBinary_result :: "js_error + string"
  edit_during_read :: "editor \<Rightarrow> editor"

record create_outcome =
  cr_leaf :: "leaf option"
  cr_vault_ops :: "vault_op list"
  cr_notices :: "notice list"
  cr_requests :: "request list"
  cr_result :: "bool option"
  cr_thrown :: "js_error option"

text \<open>An early \<^verbatim>\<open>return\<close>: nothing was read, shown, sent or changed.\<close>

definition ignored :: "leaf option \<Rightarrow> create_outcome" where
  "ignored activeLeaf =
     \<lparr>cr_leaf = activeLeaf, cr_vault_ops = [], cr_notices = [], cr_requests = [],
      cr_result = None, cr_thrown = None\<rparr>"

definition image_extensions :: "string list" where
  "image_extensions = [''png'', ''jpg'', ''jpeg'', ''gif'', ''svg'', ''webp'']"

definition video_extensions :: "string list" where
  "video_extensions = [''mp4'', ''webm'', ''mov'']"

definition linkString_of :: "string \<Rightarrow> string" where
  "linkString_of nm = ''![['' @ nm @ '']]''"

definition handleFileCreate ::
  "create_env \<Rightarrow> settings \<Rightarrow> TFile \<Rightarrow> leaf option \<Rightarrow> create_outcome" where
  "handleFileCreate cev st file activeLeaf =
     (let isImage = (tf_extension file \<in> set image_extensions);
          isVideo = (tf_extension file \<in> set video_extensions)
      in if \<not> isImage \<and> \<not> isVideo then ignored activeLeaf
         else
           (case activeLeaf of
              None \<Rightarrow> ignored activeLeaf
            | Some lf \<Rightarrow>
                if viewType lf \<noteq> ''markdown'' then ignored activeLeaf
                else
                  let ed = leaf_editor lf;
                      content = getValue ed;
                      linkString = linkString_of (tf_name file)
                  in if \<not> str_includes content (tf_name file) then ignored activeLeaf
                     else
                       (case readBinary_result cev of
                          Inl e \<Rightarrow>
                            \<lparr>cr_leaf = activeLeaf,
                             cr_vault_ops = [ReadBinary (tf_name file)],
                             cr_notices = [MobileUploadDetected (tf_name file)],
                             cr_requests = [],
                             cr_result = None,
                             cr_thrown = Some e\<rparr>
                        | Inr base64Data \<Rightarrow>
                            let fileObj =
                                  \<lparr>name = tf_name file,
                                   ftype = (if isImage then ''image/'' @ tf_extension file
                                            else ''video/'' @ tf_extension file),
                                   base64 = Some base64Data,
                                   fsize = tf_size file,
                                   instanceof_File = False\<rparr>;
                                out = processUpload (upload_env cev) st fileObj
                                        (edit_during_read cev ed) False (Some linkString)
                            in \<lparr>cr_leaf = Some (lf\<lparr>leaf_editor := final out\<rparr>),
                                cr_vault_ops =
                                  ReadBinary (tf_name file) #
                                    (if success out then [Delete (tf_name file)] else []),
                                cr_notices = MobileUploadDetected (tf_name file) # notices out,
                                cr_requests = requests out,
                                cr_result = Some (success out),
                                cr_thrown = None\<rparr>)))"

text \<open>
  The object that \<^verbatim>\<open>handleFileCreate\<close> builds for \<^verbatim>\<open>processUpload\<close> from the created
  file and the encoding of its bytes.
\<close>

definition created_fileObj :: "TFile \<Rightarrow> string \<Rightarrow> fileObj" where
  "created_fileObj file base64Data =
     \<lparr>name = tf_name file,
      ftype = (if tf_extension file \<in> set image_extensions then ''image/'' @ tf_extension file
               else ''video/'' @ tf_extension file),
      base64 = Some base64Data,
      fsize = tf_size file,
      instanceof_File = False\<rparr>"

section \<open>The paste handler of the second source file\<close>

text \<open>
  The other source file of the repository has no \<^verbatim>\<open>processUpload\<close>: its
  \<^verbatim>\<open>handlePaste\<close> does the whole upload itself. Its \<^verbatim>\<open>fileToBase64\<close> and
  \<^verbatim>\<open>uploadToGithub\<close> are the ones above. It differs in the placeholder, which has no time
  stamp, in always encoding the file, in one more notice, in replacing the placeholder
  without looking for it first, and in the failure marker, which carries the message of
  the error. Its two notices for a rejected file are worded a little differently ("GitHub
  API limit is 25MB", "Please configure GitHub settings first"); they are the kinds
  \<open>FileTooBig\<close> and \<open>ConfigureSettings\<close> here. The handler returns nothing; \<open>lg_prevented\<close> tells whether it called
  \<^verbatim>\<open>evt.preventDefault()\<close>.
\<close>

record legacy_outcome =
  lg_prevented :: bool
  lg_final :: editor
  lg_notices :: "notice list"
  lg_requests :: "request list"

definition legacy_placeholder :: "string \<Rightarrow> string" where
  "legacy_placeholder nm = ''![Uploading '' @ nm @ ''...]()''"

definition legacy_failed :: "string \<Rightarrow> js_error \<Rightarrow> notice list \<Rightarrow> request list \<Rightarrow> editor \<Rightarrow> legacy_outcome" where
  "legacy_failed placeholder e shown reqs ed =
     \<lparr>lg_prevented = True,
      lg_final = setValue (str_replace (getValue ed) placeholder
                   (''[Upload Failed: '' @ err_message e @ '']'')) ed,
      lg_notices = shown @ [UploadFailed (err_message e)],
      lg_requests = reqs\<rparr>"

definition handlePaste_legacy ::
  "env \<Rightarrow> settings \<Rightarrow> fileObj list \<Rightarrow> editor \<Rightarrow> legacy_outcome" where
  "handlePaste_legacy ev st files ed =
     (case files of
        [] \<Rightarrow> \<lparr>lg_prevented = False, lg_final = ed, lg_notices = [], lg_requests = []\<rparr>
      | file # rest \<Rightarrow>
          let isImage = startsWith (ftype file) ''image/'';
              isVideo = startsWith (ftype file) ''video/''
          in if \<not> isImage \<and> \<not> isVideo then
               \<lparr>lg_prevented = False, lg_final = ed, lg_notices = [], lg_requests = []\<rparr>
             else if 25 * (1024 * 1024) < fsize file then
               \<lparr>lg_prevented = False, lg_final = ed,
                lg_notices = [FileTooBig (fsize file)], lg_requests = []\<rparr>
             else
               let user = trim (githubUser st);
                   repo = trim (githubRepo st);
                   token = trim (githubToken st);
                   branch' = trim (branch st)
               in if user = [] \<or> repo = [] \<or> token = [] then
                    \<lparr>lg_prevented = False, lg_final = ed,
                     lg_notices = [ConfigureSettings], lg_requests = []\<rparr>
                  else
                    let placeholder = legacy_placeholder (name file);
                        ed1 = replaceSelection placeholder ed;
                        ed2 = concurrent_edit ev ed1
                    in (case fileToBase64_result ev of
                          Inl e \<Rightarrow> legacy_failed placeholder e [] [] ed2
                        | Inr base64Data \<Rightarrow>
                            let fileName = fileName_of (now_fileName ev) (name file);
                                path = path_of (folderPath st) (now_fileName ev) (name file);
                                req = uploadToGithub_request user repo token branch' path
                                        (Some base64Data)
                            in (case uploadToGithub (requestUrl_result ev) of
                                  Inl e \<Rightarrow>
                                    legacy_failed placeholder e [UploadingType (ftype file)] [req] ed2
                                | Inr u \<Rightarrow>
                                    let rawUrl = rawUrl_of user repo branch' path;
                                        embedCode = (if isImage then image_embed rawUrl
                                                     else if isVideo then video_embed rawUrl
                                                     else []);
                                        currentContent = getValue ed2;
                                        newContent = str_replace currentContent placeholder embedCode
                                    in \<lparr>lg_prevented = True,
                                        lg_final = setValue newContent ed2,
                                        lg_notices = [UploadingType (ftype file), Uploaded fileName],
                                        lg_requests = [req]\<rparr>)))"


section \<open>Notions used to state the properties\<close>

text \<open>The number of positions of \<open>s\<close> at which an occurrence of \<open>p\<close> starts.\<close>

fun count_occ :: "string \<Rightarrow> string \<Rightarrow> nat" where
  "count_occ [] p = (if p = [] then 1 else 0)"
| "count_occ (c # cs) p = (if startsWith (c # cs) p then 1 else 0) + count_occ cs p"



subsection \<open>Sample values\<close>

definition example_settings :: settings where
  "example_settings =
     \<lparr>githubUser = ''octo'', githubRepo = ''notes'', githubToken = '' t0k '',
      folderPath = ''assets/'', branch = ''main''\<rparr>"

definition example_env :: env where
  "example_env =
     \<lparr>now_placeholder = 5, now_fileName = 7, fileToBase64_result = Inr ''QUJD'',
      requestUrl_result = Response 201, concurrent_edit = (\<lambda>e. e)\<rparr>"

definition example_file :: fileObj where
  "example_file =
     \<lparr>name = ''My Photo.png'', ftype = ''image/png'', base64 = None, fsize = 3,
      instanceof_File = True\<rparr>"

definition example_editor :: editor where
  "example_editor = \<lparr>doc = ''ab'', sel_from = 1, sel_to = 1\<rparr>"

definition example_tfile :: TFile where
  "example_tfile = \<lparr>tf_name = ''photo.png'', tf_extension = ''png'', tf_size = 3\<rparr>"

definition example_create_env :: create_env where
  "example_create_env =
     \<lparr>upload_env = example_env, readBinary_result = Inr ''QUJD'', edit_during_read = (\<lambda>e. e)\<rparr>"

definition example_leaf :: "string \<Rightarrow> leaf" where
  "example_leaf text = \<lparr>viewType = ''markdown'', leaf_editor = \<lparr>doc = text, sel_from = 0, sel_to = 0\<rparr>\<rparr>"

definition example_wipe :: "editor \<Rightarrow> editor" where
  "example_wipe e = \<lparr>doc = ''xy'', sel_from = 1, sel_to = 1\<rparr>"

text \<open>The definitions to unfold when a run is evaluated on sample values.\<close>

lemmas run_defs =
  processUpload_def handleFileCreate_def handlePaste_def handlePaste_legacy_def
  insert_placeholder_def upload_failed_def upload_done_def base64Data_of_def legacy_failed_def
  uploadToGithub_def uploadToGithub_try_def uploadToGithub_catch_def uploadToGithub_request_def
  placeholder_text_def legacy_placeholder_def fileName_of_def folder_of_def path_of_def
  rawUrl_of_def image_embed_def video_embed_def embedCode_of_def linkString_of_def
  image_extensions_def video_extensions_def ignored_def Error_def
  getValue_def setValue_def replaceSelection_def
  str_replace_def trim_def endsWith_def is_space_def show_nat.simps digit_char_def Let_def

lemmas example_defs =
  example_settings_def example_env_def example_file_def example_editor_def
  example_tfile_def example_create_env_def example_leaf_def

section \<open>Facts about the string operations\<close>

lemma startsWith_iff: "startsWith s p = (\<exists>r. s = p @ r)"
  by (induction s p rule: startsWith.induct) auto

lemma startsWith_append: "startsWith (p @ r) p"
  by (simp add: startsWith_iff)

lemma str_includes_iff: "str_includes s p = (\<exists>a b. s = a @ p @ b)"
proof (induction s)
  case Nil
  then show ?case by auto
next
  case (Cons c cs)
  show ?case
  proof
    assume "str_includes (c # cs) p"
    then consider "startsWith (c # cs) p" | "str_includes cs p" by auto
    then show "\<exists>a b. c # cs = a @ p @ b"
    proof cases
      case 1
      then obtain r where "c # cs = p @ r" by (auto simp: startsWith_iff)
      then have "c # cs = [] @ p @ r" by simp
      then show ?thesis by blast
    next
      case 2
      then obtain a b where "cs = a @ p @ b" using Cons.IH by auto
      then have "c # cs = (c # a) @ p @ b" by simp
      then show ?thesis by blast
    qed
  next
    assume "\<exists>a b. c # cs = a @ p @ b"
    then obtain a b where ab: "c # cs = a @ p @ b" by auto
    show "str_includes (c # cs) p"
    proof (cases a)
      case Nil
      then have "startsWith (c # cs) p" using ab by (simp add: startsWith_iff)
      then show ?thesis by simp
    next
      case (Cons x xs)
      then have "cs = xs @ p @ b" using ab by simp
      then show ?thesis using Cons.IH by auto
    qed
  qed
qed

lemma str_includes_middle: "str_includes (a @ p @ b) p"
  by (auto simp: str_includes_iff)

lemma split_first_Some: "split_first s p = Some (b, a) \<Longrightarrow> s = b @ p @ a"
proof (induction s arbitrary: b)
  case Nil
  then show ?case by (auto split: if_splits)
next
  case (Cons c cs)
  show ?case
  proof (cases "startsWith (c # cs) p")
    case True
    then obtain r where r: "c # cs = p @ r" by (auto simp: startsWith_iff)
    from True Cons.prems have "b = []" "a = drop (length p) (c # cs)" by auto
    then show ?thesis using r by simp
  next
    case False
    with Cons.prems obtain b' where "split_first cs p = Some (b', a)" "b = c # b'"
      by (auto split: option.splits)
    then show ?thesis using Cons.IH by auto
  qed
qed

text \<open>The split is at the leftmost occurrence.\<close>

lemma split_first_leftmost:
  "split_first s p = Some (b, a) \<Longrightarrow> s = b' @ p @ a' \<Longrightarrow> length b \<le> length b'"
proof (induction s arbitrary: b b')
  case Nil
  then show ?case by (auto split: if_splits)
next
  case (Cons c cs)
  show ?case
  proof (cases "startsWith (c # cs) p")
    case True
    with Cons.prems(1) show ?thesis by simp
  next
    case False
    with Cons.prems(1) obtain b0 where b0: "split_first cs p = Some (b0, a)" "b = c # b0"
      by (auto split: option.splits)
    have "b' \<noteq> []"
    proof
      assume "b' = []"
      then have "c # cs = p @ a'" using Cons.prems(2) by simp
      then have "startsWith (c # cs) p" by (simp add: startsWith_iff)
      with False show False by simp
    qed
    then obtain b0' where b0': "b' = c # b0'" "cs = b0' @ p @ a'"
      using Cons.prems(2) by (cases b') auto
    from Cons.IH [OF b0(1) b0'(2)] b0(2) b0'(1) show ?thesis by simp
  qed
qed

text \<open>\<^const>\<open>trim\<close> takes the white space off both ends and nothing else.\<close>

lemma dropWhile_all: "\<forall>c\<in>set w. P c \<Longrightarrow> dropWhile P (w @ s) = dropWhile P s"
  by (induction w) auto

lemma trim_spaces:
  assumes "\<forall>c\<in>set w1. is_space c" and "\<forall>c\<in>set w2. is_space c"
    and "s = [] \<or> (\<not> is_space (hd s) \<and> \<not> is_space (last s))"
  shows "trim (w1 @ s @ w2) = s"
proof (cases "s = []")
  case True
  have "dropWhile is_space (w1 @ [] @ w2) = []"
    using assms(1,2) by (simp add: dropWhile_eq_Nil_conv)
  then have "trim (w1 @ [] @ w2) = []"
    unfolding trim_def by (simp only: rev.simps dropWhile.simps)
  then show ?thesis using True by simp
next
  case False
  then have h: "\<not> is_space (hd s)" and l: "\<not> is_space (last s)" using assms(3) by auto
  have "dropWhile is_space (w1 @ s @ w2) = dropWhile is_space (s @ w2)"
    using assms(1) by (rule dropWhile_all)
  also have "\<dots> = s @ w2" using False h by (cases s) auto
  finally have 1: "dropWhile is_space (w1 @ s @ w2) = s @ w2" .
  have "\<forall>c\<in>set (rev w2). is_space c" using assms(2) by simp
  then have "dropWhile is_space (rev w2 @ rev s) = dropWhile is_space (rev s)"
    by (rule dropWhile_all)
  also have "\<dots> = rev s" using False l by (cases "rev s") (auto simp: hd_rev)
  finally have "dropWhile is_space (rev (s @ w2)) = rev s" by simp
  then show ?thesis using 1 by (simp add: trim_def)
qed

lemma split_first_None: "(split_first s p = None) = (\<not> str_includes s p)"
  by (induction s) (auto split: option.splits)

lemma GetSubstitution_literal:
  "CHR ''$'' \<notin> set t \<Longrightarrow> GetSubstitution m b a t = t"
  by (induction m b a t rule: GetSubstitution.induct) auto

lemma str_replace_literal:
  "split_first s p = Some (b, a) \<Longrightarrow> CHR ''$'' \<notin> set t \<Longrightarrow> str_replace s p t = b @ t @ a"
  by (simp add: str_replace_def GetSubstitution_literal)

lemma str_replace_absent: "\<not> str_includes s p \<Longrightarrow> str_replace s p t = s"
  using split_first_None [of s p] by (simp add: str_replace_def)

lemma digit_char_not_dollar: "digit_char d \<noteq> CHR ''$''"
  by (simp add: digit_char_def)

lemma show_nat_no_dollar: "CHR ''$'' \<notin> set (show_nat n)"
proof (induction n rule: show_nat.induct)
  case (1 n)
  show ?case
  proof (cases "n < 10")
    case True
    then show ?thesis by (subst show_nat.simps) (simp add: digit_char_not_dollar [symmetric])
  next
    case False
    then show ?thesis using 1 by (subst show_nat.simps) (simp add: digit_char_not_dollar [symmetric])
  qed
qed


section \<open>The checks before the upload\<close>

text \<open>
  Claim C2. For every item of more than 25 MiB, \<^verbatim>\<open>processUpload\<close> returns \<open>false\<close> with the
  notice that the file is too big, sends no request and leaves the editor as it was. The
  same holds for a pasted media file in both paste handlers; a pasted file that is no
  image and no video is not handled at all.
\<close>

theorem oversize_rejected:
  assumes "25 * (1024 * 1024) < fsize f"
  shows "processUpload ev st f ed isPasteEvent linkToReplace =
           \<lparr>success = False, final = ed, notices = [FileTooBig (fsize f)], requests = []\<rparr>
         \<and> (if startsWith (ftype f) ''image/'' \<or> startsWith (ftype f) ''video/''
            then handlePaste ev st (f # rest) ed =
                   Some \<lparr>success = False, final = ed, notices = [FileTooBig (fsize f)], requests = []\<rparr>
               \<and> handlePaste_legacy ev st (f # rest) ed =
                   \<lparr>lg_prevented = False, lg_final = ed, lg_notices = [FileTooBig (fsize f)],
                    lg_requests = []\<rparr>
            else handlePaste ev st (f # rest) ed = None)"
  using assms by (auto simp: processUpload_def handlePaste_def handlePaste_legacy_def Let_def)

theorem oversize_rejected_witness:
  "processUpload example_env example_settings (example_file\<lparr>fsize := 26214401\<rparr>) example_editor True None =
     \<lparr>success = False, final = example_editor, notices = [FileTooBig 26214401], requests = []\<rparr>
   \<and> handlePaste_legacy example_env example_settings [example_file\<lparr>fsize := 26214401\<rparr>] example_editor =
       \<lparr>lg_prevented = False, lg_final = example_editor, lg_notices = [FileTooBig 26214401],
        lg_requests = []\<rparr>"
  using oversize_rejected [of "example_file\<lparr>fsize := 26214401\<rparr>" example_env example_settings
      example_editor True None "[]"]
  by (simp add: example_file_def)

text \<open>
  Claim C3, as stated, fails where the size check comes first: with the default settings
  (nothing configured) an item of more than 25 MiB gets the notice that the file is too
  big, not the one that asks for the settings.
\<close>

theorem missing_configuration_counterexample:
  "trim (githubUser DEFAULT_SETTINGS) = []
   \<and> notices (processUpload example_env DEFAULT_SETTINGS (example_file\<lparr>fsize := 26214401\<rparr>)
        example_editor True None) = [FileTooBig 26214401]
   \<and> notices (processUpload example_env DEFAULT_SETTINGS (example_file\<lparr>fsize := 26214401\<rparr>)
        example_editor True None) \<noteq> [ConfigureSettings]"
  by (simp add: processUpload_def DEFAULT_SETTINGS_def example_file_def trim_def)

text \<open>
  Claim C3, amended. For every configuration in which the user, the repository or the
  token is empty after trimming, \<^verbatim>\<open>processUpload\<close> returns \<open>false\<close>, sends no request and
  leaves the editor as it was; the notice asks for the settings when the item has at most
  25 MiB, and says that the file is too big otherwise. The same holds for a pasted media
  file in the paste handler of the second source file.
\<close>

theorem missing_configuration_rejected:
  assumes "trim (githubUser st) = [] \<or> trim (githubRepo st) = [] \<or> trim (githubToken st) = []"
  shows "processUpload ev st f ed isPasteEvent linkToReplace =
           \<lparr>success = False, final = ed,
            notices = (if 25 * (1024 * 1024) < fsize f then [FileTooBig (fsize f)]
                       else [ConfigureSettings]),
            requests = []\<rparr>
         \<and> (if startsWith (ftype f) ''image/'' \<or> startsWith (ftype f) ''video/''
            then handlePaste_legacy ev st (f # rest) ed =
                   \<lparr>lg_prevented = False, lg_final = ed,
                    lg_notices = (if 25 * (1024 * 1024) < fsize f then [FileTooBig (fsize f)]
                                  else [ConfigureSettings]),
                    lg_requests = []\<rparr>
            else handlePaste_legacy ev st (f # rest) ed =
                   \<lparr>lg_prevented = False, lg_final = ed, lg_notices = [], lg_requests = []\<rparr>)"
  using assms by (auto simp: processUpload_def handlePaste_legacy_def Let_def)

theorem missing_configuration_rejected_witness:
  "trim (githubUser (example_settings\<lparr>githubUser := ''  ''\<rparr>)) = []
   \<and> processUpload example_env (example_settings\<lparr>githubUser := ''  ''\<rparr>) example_file example_editor True None =
       \<lparr>success = False, final = example_editor, notices = [ConfigureSettings], requests = []\<rparr>"
proof -
  have h: "trim (githubUser (example_settings\<lparr>githubUser := ''  ''\<rparr>)) = []"
    by (simp add: trim_def is_space_def)
  then have "trim (githubUser (example_settings\<lparr>githubUser := ''  ''\<rparr>)) = []
     \<or> trim (githubRepo (example_settings\<lparr>githubUser := ''  ''\<rparr>)) = []
     \<or> trim (githubToken (example_settings\<lparr>githubUser := ''  ''\<rparr>)) = []" by blast
  from missing_configuration_rejected [OF this, of example_env example_file example_editor True None "[]"] h
  show ?thesis by (simp add: example_file_def)
qed


section \<open>The messages of a failed upload\<close>

lemma uploadToGithub_Response:
  "uploadToGithub (Response st) =
     (if st = 200 \<or> st = 201 then Inr () else Inl (Error (''GitHub Status '' @ show_nat st)))"
  by (simp add: uploadToGithub_def uploadToGithub_try_def uploadToGithub_catch_def Error_def)










text \<open>The message of the error that \<^verbatim>\<open>uploadToGithub\<close> throws is the one the user is shown.\<close>

lemma processUpload_shows_message:
  assumes "\<not> 25 * (1024 * 1024) < fsize f"
    and "trim (githubUser st) \<noteq> []" and "trim (githubRepo st) \<noteq> []"
    and "trim (githubToken st) \<noteq> []"
    and "base64Data_of ev f = Inr b"
    and "uploadToGithub (requestUrl_result ev) = Inl e"
  shows "notices (processUpload ev st f ed isPasteEvent linkToReplace) = [UploadFailed (err_message e)]"
  using assms by (simp add: processUpload_def Let_def upload_failed_def)




section \<open>The remote path\<close>

lemma replace_ws_no_space: "c \<notin> set (replace_ws nm) \<or> \<not> is_space c"
proof (induction nm rule: replace_ws.induct)
  case 1
  then show ?case by simp
next
  case (2 d ds)
  show ?case
  proof (cases "is_space d")
    case True
    have "\<not> is_space CHR ''-''" by (simp add: is_space_def)
    with True 2(1) show ?thesis by auto
  next
    case False
    with 2(2) show ?thesis by auto
  qed
qed

lemma replace_ws_id: "\<forall>c\<in>set nm. \<not> is_space c \<Longrightarrow> replace_ws nm = nm"
  by (induction nm) simp_all

lemma dropWhile_self: "b = [] \<or> \<not> P (hd b) \<Longrightarrow> dropWhile P b = b"
  by (cases b) auto

lemma replace_ws_run:
  assumes "w \<noteq> []" and "\<forall>c\<in>set w. is_space c" and "b = [] \<or> \<not> is_space (hd b)"
  shows "replace_ws (w @ b) = CHR ''-'' # replace_ws b"
proof -
  obtain c cs where w: "w = c # cs" using assms(1) by (cases w) auto
  have "\<And>x. x \<in> set cs \<Longrightarrow> is_space x" using assms(2) w by simp
  then have "dropWhile is_space (cs @ b) = dropWhile is_space b"
    by (rule dropWhile_append2)
  also have "\<dots> = b" using assms(3) by (rule dropWhile_self)
  finally have "dropWhile is_space (cs @ b) = b" .
  moreover have "is_space c" using assms(2) w by simp
  ultimately show ?thesis using w by simp
qed

lemma replace_ws_append:
  "a = [] \<or> \<not> is_space (last a) \<Longrightarrow> replace_ws (a @ b) = replace_ws a @ replace_ws b"
proof (induction a rule: replace_ws.induct)
  case 1
  then show ?case by simp
next
  case (2 c cs)
  show ?case
  proof (cases "is_space c")
    case False
    have "cs = [] \<or> \<not> is_space (last cs)" using 2(3) by (cases cs) simp_all
    with False 2(2) show ?thesis by simp
  next
    case True
    then have ne: "cs \<noteq> []" using 2(3) by auto
    then have l: "\<not> is_space (last cs)" using 2(3) by simp
    have mem: "last cs \<in> set cs" using ne by simp
    have dne: "dropWhile is_space cs \<noteq> []"
      using l mem by (auto simp: dropWhile_eq_Nil_conv)
    have "cs = takeWhile is_space cs @ dropWhile is_space cs" by simp
    then have "last cs = last (takeWhile is_space cs @ dropWhile is_space cs)" by simp
    also have "\<dots> = last (dropWhile is_space cs)" using dne by (rule last_appendR)
    finally have "\<not> is_space (last (dropWhile is_space cs))" using l by simp
    then have IH: "replace_ws (dropWhile is_space cs @ b) =
        replace_ws (dropWhile is_space cs) @ replace_ws b"
      using 2(1) True by simp
    obtain x where x: "x \<in> set cs" "\<not> is_space x" using l mem by blast
    then have "dropWhile is_space (cs @ b) = dropWhile is_space cs @ b"
      by (rule dropWhile_append1)
    with True IH show ?thesis by simp
  qed
qed

lemma replace_ws_between:
  assumes "a = [] \<or> \<not> is_space (last a)" and "w \<noteq> []" and "\<forall>c\<in>set w. is_space c"
    and "b = [] \<or> \<not> is_space (hd b)"
  shows "replace_ws (a @ w @ b) = replace_ws a @ ''-'' @ replace_ws b"
  using replace_ws_append [OF assms(1), of "w @ b"] replace_ws_run [OF assms(2,3,4)] by simp

lemma path_of_eq:
  "path_of fp now nm =
     (if folder_of fp = [] then show_nat now @ ''-'' @ replace_ws nm
      else folder_of fp @ ''/'' @ show_nat now @ ''-'' @ replace_ws nm)"
  by (simp add: path_of_def fileName_of_def Let_def)

text \<open>
  Claim C5, as stated, fails for an empty folder, which is the default setting: the path
  is then the file name alone, with no slash in front of it.
\<close>

theorem path_construction_counterexample:
  "folder_of (folderPath DEFAULT_SETTINGS) = []
   \<and> path_of (folderPath DEFAULT_SETTINGS) 7 ''a.png'' = ''7-a.png''
   \<and> path_of (folderPath DEFAULT_SETTINGS) 7 ''a.png''
       \<noteq> folder_of (folderPath DEFAULT_SETTINGS) @ ''/'' @ show_nat 7 @ ''-'' @ replace_ws ''a.png''"
  by (simp add: path_of_def fileName_of_def folder_of_def Let_def trim_def endsWith_def is_space_def
      DEFAULT_SETTINGS_def show_nat.simps digit_char_def)

text \<open>
  Claim C5, amended. The folder is the trimmed setting without one trailing slash. When
  it is not empty, the path is the folder, a slash, the time stamp, a hyphen and the name
  with every run of white space replaced by one hyphen; when it is empty, the path is the
  time stamp, a hyphen and that name. The name \<^verbatim>\<open>My Photo.png\<close> with the folder setting
  \<^verbatim>\<open>assets/\<close> at time \<open>now\<close> yields \<^verbatim>\<open>assets/{now}-My-Photo.png\<close>.
\<close>

theorem path_construction:
  "path_of fp now nm =
     (if folder_of fp = [] then show_nat now @ ''-'' @ replace_ws nm
      else folder_of fp @ ''/'' @ show_nat now @ ''-'' @ replace_ws nm)
   \<and> folder_of fp = (if endsWith (trim fp) ''/'' then butlast (trim fp) else trim fp)
   \<and> path_of ''assets/'' now ''My Photo.png'' = ''assets/'' @ show_nat now @ ''-My-Photo.png''"
proof -
  have b: "folder_of fp = (if endsWith (trim fp) ''/'' then butlast (trim fp) else trim fp)"
    by (simp add: folder_of_def Let_def)
  have c: "folder_of ''assets/'' = ''assets''"
    by (simp add: folder_of_def Let_def trim_def endsWith_def is_space_def)
  have d: "replace_ws ''My Photo.png'' = ''My-Photo.png''"
    by (simp add: is_space_def)
  have "path_of ''assets/'' now ''My Photo.png'' =
          ''assets'' @ ''/'' @ show_nat now @ ''-'' @ ''My-Photo.png''"
    unfolding path_of_eq c d by simp
  then have "path_of ''assets/'' now ''My Photo.png'' = ''assets/'' @ show_nat now @ ''-My-Photo.png''"
    by simp
  with path_of_eq [of fp now nm] b show ?thesis by blast
qed

theorem path_construction_witness:
  "path_of ''  docs/img/ '' 1700000000000 ''a  b.png'' = ''docs/img/1700000000000-a-b.png''"
proof -
  have "folder_of ''  docs/img/ '' = ''docs/img''"
    by (simp add: folder_of_def Let_def trim_def endsWith_def is_space_def)
  moreover have "replace_ws ''a  b.png'' = ''a-b.png''"
    by (simp add: is_space_def)
  moreover have "show_nat 1700000000000 = ''1700000000000''"
    by (simp add: show_nat.simps digit_char_def)
  ultimately show ?thesis
    using path_construction [of "''  docs/img/ ''" 1700000000000 "''a  b.png''"] by simp
qed


section \<open>The fallback path\<close>

lemma handleFileCreate_processes:
  assumes "tf_extension file \<in> set (image_extensions @ video_extensions)"
    and "viewType lf = ''markdown''"
    and "str_includes (getValue (leaf_editor lf)) (tf_name file)"
  shows "cr_vault_ops (handleFileCreate cev st file (Some lf)) \<noteq> []"
  using assms by (auto simp: handleFileCreate_def Let_def split: sum.splits)

lemma handleFileCreate_result:
  assumes "cr_result (handleFileCreate cev st file activeLeaf) = Some b"
  shows "\<exists>lf base64Data. activeLeaf = Some lf \<and> readBinary_result cev = Inr base64Data
     \<and> b = success (processUpload (upload_env cev) st
           \<lparr>name = tf_name file,
            ftype = (if tf_extension file \<in> set image_extensions then ''image/'' @ tf_extension file
                     else ''video/'' @ tf_extension file),
            base64 = Some base64Data, fsize = tf_size file, instanceof_File = False\<rparr>
           (edit_during_read cev (leaf_editor lf)) False (Some (linkString_of (tf_name file))))"
  using assms
  by (auto simp: handleFileCreate_def Let_def ignored_def split: option.splits sum.splits if_splits)

lemma fallback_run_success:
  "handleFileCreate example_create_env example_settings example_tfile
     (Some (example_leaf ''see ![[photo.png]] here'')) =
   \<lparr>cr_leaf = Some \<lparr>viewType = ''markdown'',
        leaf_editor = \<lparr>doc = ''see ![](https://raw.githubusercontent.com/octo/notes/main/assets/7-photo.png) here'',
          sel_from = 0, sel_to = 0\<rparr>\<rparr>,
     cr_vault_ops = [ReadBinary ''photo.png'', Delete ''photo.png''],
     cr_notices = [MobileUploadDetected ''photo.png'', Uploaded ''7-photo.png''],
     cr_requests = [\<lparr>req_url = ''https://api.github.com/repos/octo/notes/contents/assets/7-photo.png'',
        req_method = ''PUT'', req_authorization = ''token t0k'',
        req_message = ''Upload assets/7-photo.png'', req_content = Some ''QUJD'',
        req_branch = ''main''\<rparr>],
     cr_result = Some True, cr_thrown = None\<rparr>"
  by (simp add: run_defs example_defs)

text \<open>
  Claim C7. For every file-creation event, either the handler returns at once, having
  read nothing, shown nothing, sent nothing, deleted nothing and left the active leaf as
  it was, or the extension of the file is one of the nine of the allow-list and the text
  of the active markdown editor contains the name of the file.
\<close>

theorem fallback_gate:
  "handleFileCreate cev st file activeLeaf = ignored activeLeaf
   \<or> (tf_extension file \<in> {''png'', ''jpg'', ''jpeg'', ''gif'', ''svg'', ''webp'', ''mp4'', ''webm'', ''mov''}
      \<and> (\<exists>lf. activeLeaf = Some lf \<and> viewType lf = ''markdown''
            \<and> str_includes (getValue (leaf_editor lf)) (tf_name file)))"
  by (auto simp: handleFileCreate_def Let_def image_extensions_def video_extensions_def
      split: option.splits)

theorem fallback_gate_witness:
  "handleFileCreate example_create_env example_settings (example_tfile\<lparr>tf_extension := ''txt''\<rparr>)
     (Some (example_leaf ''![[photo.png]]'')) = ignored (Some (example_leaf ''![[photo.png]]''))
   \<and> handleFileCreate example_create_env example_settings example_tfile
     (Some (example_leaf ''no link here'')) = ignored (Some (example_leaf ''no link here''))"
proof -
  have a: "tf_extension (example_tfile\<lparr>tf_extension := ''txt''\<rparr>)
     \<notin> {''png'', ''jpg'', ''jpeg'', ''gif'', ''svg'', ''webp'', ''mp4'', ''webm'', ''mov''}"
    by simp
  have b: "\<not> str_includes (getValue (leaf_editor (example_leaf ''no link here''))) (tf_name example_tfile)"
    by (simp add: example_leaf_def example_tfile_def getValue_def)
  show ?thesis
    using a b
      fallback_gate [of example_create_env example_settings "example_tfile\<lparr>tf_extension := ''txt''\<rparr>"
        "Some (example_leaf ''![[photo.png]]'')"]
      fallback_gate [of example_create_env example_settings example_tfile
        "Some (example_leaf ''no link here'')"]
    by blast
qed

text \<open>
  Claim C10. The handler asks the vault to delete a file exactly when that file is the
  created one, the handler has got as far as calling \<^verbatim>\<open>processUpload\<close> (the extension is
  in the allow-list, the active markdown editor's text contains the name, the read has
  succeeded) and \<^verbatim>\<open>processUpload\<close>, called with the object built from the file, has
  returned \<open>true\<close>. The only calls it makes on the vault are the read and this deletion.
\<close>

theorem delete_only_on_success:
  "(Delete n \<in> set (cr_vault_ops (handleFileCreate cev st file activeLeaf))) =
     (n = tf_name file
      \<and> (\<exists>lf base64Data.
            activeLeaf = Some lf
          \<and> viewType lf = ''markdown''
          \<and> tf_extension file \<in> set (image_extensions @ video_extensions)
          \<and> str_includes (getValue (leaf_editor lf)) (tf_name file)
          \<and> readBinary_result cev = Inr base64Data
          \<and> success (processUpload (upload_env cev) st (created_fileObj file base64Data)
                (edit_during_read cev (leaf_editor lf)) False
                (Some (linkString_of (tf_name file))))))
   \<and> set (cr_vault_ops (handleFileCreate cev st file activeLeaf))
       \<subseteq> {ReadBinary (tf_name file), Delete (tf_name file)}"
  by (auto simp: handleFileCreate_def created_fileObj_def Let_def ignored_def
      split: option.splits sum.splits)

theorem delete_only_on_success_witness:
  "Delete ''photo.png'' \<in> set (cr_vault_ops (handleFileCreate example_create_env example_settings
      example_tfile (Some (example_leaf ''see ![[photo.png]] here''))))
   \<and> Delete ''photo.png'' \<notin> set (cr_vault_ops (handleFileCreate
      (example_create_env\<lparr>upload_env := example_env\<lparr>requestUrl_result := Response 500\<rparr>\<rparr>)
      example_settings example_tfile (Some (example_leaf ''see ![[photo.png]] here''))))
   \<and> Delete ''photo.png'' \<notin> set (cr_vault_ops (handleFileCreate example_create_env example_settings
      (example_tfile\<lparr>tf_size := 26214401\<rparr>) (Some (example_leaf ''see ![[photo.png]] here''))))
   \<and> Delete ''photo.png'' \<notin> set (cr_vault_ops (handleFileCreate example_create_env DEFAULT_SETTINGS
      example_tfile (Some (example_leaf ''see ![[photo.png]] here''))))"
proof -
  let ?lf = "example_leaf ''see ![[photo.png]] here''"
  let ?ev500 = "example_create_env\<lparr>upload_env := example_env\<lparr>requestUrl_result := Response 500\<rparr>\<rparr>"
  let ?big = "example_tfile\<lparr>tf_size := 26214401\<rparr>"
  let ?link = "Some (linkString_of ''photo.png'')"
  have gate: "viewType ?lf = ''markdown''"
    "tf_extension example_tfile \<in> set (image_extensions @ video_extensions)"
    "str_includes (getValue (leaf_editor ?lf)) ''photo.png''"
    "tf_name example_tfile = ''photo.png''" "tf_name ?big = ''photo.png''"
    "readBinary_result example_create_env = Inr ''QUJD''"
    "readBinary_result ?ev500 = Inr ''QUJD''"
    by (simp_all add: run_defs example_defs)
  have a: "success (processUpload (upload_env example_create_env) example_settings
      (created_fileObj example_tfile ''QUJD'')
      (edit_during_read example_create_env (leaf_editor ?lf)) False ?link)"
    by (simp add: run_defs example_defs created_fileObj_def)
  have b: "\<not> success (processUpload (upload_env ?ev500) example_settings
      (created_fileObj example_tfile ''QUJD'')
      (edit_during_read ?ev500 (leaf_editor ?lf)) False ?link)"
    by (simp add: run_defs example_defs created_fileObj_def)
  have c: "\<not> success (processUpload (upload_env example_create_env) example_settings
      (created_fileObj ?big ''QUJD'')
      (edit_during_read example_create_env (leaf_editor ?lf)) False ?link)"
    by (simp add: run_defs example_defs created_fileObj_def)
  have d: "\<not> success (processUpload (upload_env example_create_env) DEFAULT_SETTINGS
      (created_fileObj example_tfile ''QUJD'')
      (edit_during_read example_create_env (leaf_editor ?lf)) False ?link)"
    by (simp add: run_defs example_defs created_fileObj_def DEFAULT_SETTINGS_def)
  show ?thesis
    using gate a b c d
      delete_only_on_success [of "''photo.png''" example_create_env example_settings example_tfile
        "Some ?lf"]
      delete_only_on_success [of "''photo.png''" ?ev500 example_settings example_tfile "Some ?lf"]
      delete_only_on_success [of "''photo.png''" example_create_env example_settings ?big "Some ?lf"]
      delete_only_on_success [of "''photo.png''" example_create_env DEFAULT_SETTINGS example_tfile
        "Some ?lf"]
    by simp
qed

section \<open>The end of a successful upload\<close>

lemma processUpload_uploaded:
  assumes "\<not> 25 * (1024 * 1024) < fsize f"
    and "trim (githubUser st) \<noteq> []" and "trim (githubRepo st) \<noteq> []"
    and "trim (githubToken st) \<noteq> []"
    and "base64Data_of ev f = Inr b"
    and "requestUrl_result ev = Response 200 \<or> requestUrl_result ev = Response 201"
  shows "processUpload ev st f ed isPasteEvent linkToReplace =
           upload_done (placeholder_text (name f) (now_placeholder ev))
             (embedCode_of (ftype f)
               (rawUrl_of (trim (githubUser st)) (trim (githubRepo st)) (trim (branch st))
                 (path_of (folderPath st) (now_fileName ev) (name f))))
             (fileName_of (now_fileName ev) (name f))
             [uploadToGithub_request (trim (githubUser st)) (trim (githubRepo st))
                (trim (githubToken st)) (trim (branch st))
                (path_of (folderPath st) (now_fileName ev) (name f)) b]
             (concurrent_edit ev
               (insert_placeholder (placeholder_text (name f) (now_placeholder ev))
                  isPasteEvent linkToReplace ed))"
proof -
  have "uploadToGithub (requestUrl_result ev) = Inr ()"
    using assms(6) by (auto simp: uploadToGithub_Response)
  then show ?thesis
    using assms(1-5) by (simp add: processUpload_def Let_def)
qed

text \<open>
  Claim C9. When the upload has succeeded and the text of the editor no longer contains
  the placeholder, \<^verbatim>\<open>processUpload\<close> puts the embed code in place of the current
  selection and returns \<open>true\<close>.
\<close>

theorem embed_at_selection_when_placeholder_gone:
  assumes "\<not> 25 * (1024 * 1024) < fsize f"
    and "trim (githubUser st) \<noteq> []" and "trim (githubRepo st) \<noteq> []"
    and "trim (githubToken st) \<noteq> []"
    and "base64Data_of ev f = Inr b"
    and "requestUrl_result ev = Response 200 \<or> requestUrl_result ev = Response 201"
    and "ed2 = concurrent_edit ev
           (insert_placeholder (placeholder_text (name f) (now_placeholder ev))
              isPasteEvent linkToReplace ed)"
    and "\<not> str_includes (getValue ed2) (placeholder_text (name f) (now_placeholder ev))"
    and "embedCode = embedCode_of (ftype f)
           (rawUrl_of (trim (githubUser st)) (trim (githubRepo st)) (trim (branch st))
             (path_of (folderPath st) (now_fileName ev) (name f)))"
  shows "success (processUpload ev st f ed isPasteEvent linkToReplace) = True
     \<and> notices (processUpload ev st f ed isPasteEvent linkToReplace) =
         [Uploaded (fileName_of (now_fileName ev) (name f))]
     \<and> final (processUpload ev st f ed isPasteEvent linkToReplace) = replaceSelection embedCode ed2
     \<and> doc (final (processUpload ev st f ed isPasteEvent linkToReplace)) =
         take (sel_from ed2) (doc ed2) @ embedCode @ drop (sel_to ed2) (doc ed2)"
  using assms(7-9)
  by (simp add: processUpload_uploaded [OF assms(1-6)] upload_done_def Let_def replaceSelection_def)

theorem embed_at_selection_when_placeholder_gone_witness:
  "success (processUpload (example_env\<lparr>concurrent_edit := example_wipe\<rparr>) example_settings
      example_file example_editor True None) = True
   \<and> doc (final (processUpload (example_env\<lparr>concurrent_edit := example_wipe\<rparr>) example_settings
      example_file example_editor True None)) =
      ''x![](https://raw.githubusercontent.com/octo/notes/main/assets/7-My-Photo.png)y''"
proof -
  let ?ev = "example_env\<lparr>concurrent_edit := example_wipe\<rparr>"
  let ?ed2 = "\<lparr>doc = ''xy'', sel_from = 1, sel_to = 1\<rparr>"
  let ?embed = "''![](https://raw.githubusercontent.com/octo/notes/main/assets/7-My-Photo.png)''"
  have 1: "\<not> 25 * (1024 * 1024) < fsize example_file" by (simp add: example_file_def)
  have 2: "trim (githubUser example_settings) \<noteq> []" by (simp add: example_settings_def trim_def is_space_def)
  have 3: "trim (githubRepo example_settings) \<noteq> []" by (simp add: example_settings_def trim_def is_space_def)
  have 4: "trim (githubToken example_settings) \<noteq> []" by (simp add: example_settings_def trim_def is_space_def)
  have 5: "base64Data_of ?ev example_file = Inr (Some ''QUJD'')"
    by (simp add: base64Data_of_def example_env_def example_file_def)
  have 6: "requestUrl_result ?ev = Response 200 \<or> requestUrl_result ?ev = Response 201"
    by (simp add: example_env_def)
  have 7: "?ed2 = concurrent_edit ?ev
           (insert_placeholder (placeholder_text (name example_file) (now_placeholder ?ev))
              True None example_editor)"
    by (simp add: example_wipe_def)
  have 8: "\<not> str_includes (getValue ?ed2) (placeholder_text (name example_file) (now_placeholder ?ev))"
    by (simp add: getValue_def placeholder_text_def example_file_def)
  have 9: "?embed = embedCode_of (ftype example_file)
           (rawUrl_of (trim (githubUser example_settings)) (trim (githubRepo example_settings))
             (trim (branch example_settings))
             (path_of (folderPath example_settings) (now_fileName ?ev) (name example_file)))"
    by (simp add: run_defs example_defs)
  show ?thesis
    using embed_at_selection_when_placeholder_gone [OF 1 2 3 4 5 6 7 8 9]
    by (simp add: replaceSelection_def)
qed


section \<open>The placeholder as an anchor\<close>

lemma count_occ_pos: "(0 < count_occ s p) = str_includes s p"
  by (induction s) auto

lemma placeholder_text_no_dollar:
  "CHR ''$'' \<notin> set nm \<Longrightarrow> CHR ''$'' \<notin> set (placeholder_text nm now)"
  using show_nat_no_dollar [of now] by (simp add: placeholder_text_def)

text \<open>
  A run of the fallback path on a note that refers to the created file with a markdown
  link: no placeholder is put in, the embed code goes in at the cursor, the link stays,
  and the file is deleted.
\<close>

lemma fallback_run_markdown_link:
  "handleFileCreate example_create_env example_settings example_tfile
     (Some (example_leaf ''![](photo.png)'')) =
   \<lparr>cr_leaf = Some \<lparr>viewType = ''markdown'',
        leaf_editor = \<lparr>doc = ''![](https://raw.githubusercontent.com/octo/notes/main/assets/7-photo.png)![](photo.png)'',
          sel_from = 73, sel_to = 73\<rparr>\<rparr>,
     cr_vault_ops = [ReadBinary ''photo.png'', Delete ''photo.png''],
     cr_notices = [MobileUploadDetected ''photo.png'', Uploaded ''7-photo.png''],
     cr_requests = [\<lparr>req_url = ''https://api.github.com/repos/octo/notes/contents/assets/7-photo.png'',
        req_method = ''PUT'', req_authorization = ''token t0k'',
        req_message = ''Upload assets/7-photo.png'', req_content = Some ''QUJD'',
        req_branch = ''main''\<rparr>],
     cr_result = Some True, cr_thrown = None\<rparr>"
  by (simp add: run_defs example_defs)

text \<open>
  Claim C8, as stated, fails in both directions. On the fallback path the placeholder
  replaces the link \<^verbatim>\<open>![[name]]\<close>: a note that refers to the created file in another way
  (here with a markdown link) passes the test of \<^verbatim>\<open>handleFileCreate\<close> and gets no
  placeholder at all. And nothing keeps the placeholder unique: the one of the second
  source file has no time stamp, so a second paste of a file of the same name while the
  first upload is running leaves two of them.
\<close>

theorem placeholder_absent_or_repeated_counterexample:
  "str_includes (getValue (leaf_editor (example_leaf ''![](photo.png)''))) (tf_name example_tfile)
   \<and> count_occ
        (doc (insert_placeholder (placeholder_text ''photo.png'' 5) False
           (Some (linkString_of ''photo.png'')) (leaf_editor (example_leaf ''![](photo.png)''))))
        (placeholder_text ''photo.png'' 5) = 0
   \<and> count_occ
        (doc (replaceSelection (legacy_placeholder ''image.png'')
           \<lparr>doc = ''![Uploading image.png...]()'', sel_from = 0, sel_to = 0\<rparr>))
        (legacy_placeholder ''image.png'') = 2"
  by (simp add: run_defs example_defs)

text \<open>
  Claim C8, amended. Right after the first edit the text holds the placeholder at least
  once: on the paste path in place of the selection; on the fallback path in place of the
  first occurrence of the link, when the text contains the link and the name has no
  dollar sign. When the text does not contain the link, the fallback path leaves the
  editor as it was.
\<close>

theorem placeholder_present_after_insertion:
  "doc (insert_placeholder p True lnk ed) = take (sel_from ed) (doc ed) @ p @ drop (sel_to ed) (doc ed)
   \<and> 1 \<le> count_occ (doc (insert_placeholder p True lnk ed)) p
   \<and> (split_first (getValue ed) l = Some (b, a) \<and> l \<noteq> [] \<and> CHR ''$'' \<notin> set nm \<longrightarrow>
        doc (insert_placeholder (placeholder_text nm now) False (Some l) ed) =
          b @ placeholder_text nm now @ a
        \<and> 1 \<le> count_occ (doc (insert_placeholder (placeholder_text nm now) False (Some l) ed))
                 (placeholder_text nm now))
   \<and> (\<not> str_includes (getValue ed) l \<longrightarrow> insert_placeholder p False (Some l) ed = ed)"
proof -
  have paste: "doc (insert_placeholder p True lnk ed) =
      take (sel_from ed) (doc ed) @ p @ drop (sel_to ed) (doc ed)"
    by (simp add: insert_placeholder_def replaceSelection_def)
  have "str_includes (take (sel_from ed) (doc ed) @ p @ drop (sel_to ed) (doc ed)) p"
    by (rule str_includes_middle)
  then have "0 < count_occ (doc (insert_placeholder p True lnk ed)) p"
    by (simp add: paste count_occ_pos)
  then have c1: "1 \<le> count_occ (doc (insert_placeholder p True lnk ed)) p" by simp
  have fb: "doc (insert_placeholder (placeholder_text nm now) False (Some l) ed) =
          b @ placeholder_text nm now @ a
        \<and> 1 \<le> count_occ (doc (insert_placeholder (placeholder_text nm now) False (Some l) ed))
                 (placeholder_text nm now)"
    if h: "split_first (getValue ed) l = Some (b, a)" "l \<noteq> []" "CHR ''$'' \<notin> set nm"
  proof -
    have lit: "CHR ''$'' \<notin> set (placeholder_text nm now)"
      using h(3) by (rule placeholder_text_no_dollar)
    have d: "doc (insert_placeholder (placeholder_text nm now) False (Some l) ed) =
        b @ placeholder_text nm now @ a"
      using h(2) str_replace_literal [OF h(1) lit]
      by (simp add: insert_placeholder_def setValue_def)
    have "str_includes (b @ placeholder_text nm now @ a) (placeholder_text nm now)"
      by (rule str_includes_middle)
    then have "0 < count_occ (doc (insert_placeholder (placeholder_text nm now) False (Some l) ed))
        (placeholder_text nm now)"
      by (simp add: d count_occ_pos)
    with d show ?thesis by simp
  qed
  have absent: "insert_placeholder p False (Some l) ed = ed" if "\<not> str_includes (getValue ed) l"
    using that by (simp add: insert_placeholder_def setValue_def str_replace_absent getValue_def)
  show ?thesis using paste c1 fb absent by blast
qed

theorem placeholder_present_after_insertion_witness:
  "doc (insert_placeholder (placeholder_text ''photo.png'' 5) False (Some (linkString_of ''photo.png''))
      (leaf_editor (example_leaf ''see ![[photo.png]] here''))) =
     ''see ![Uploading photo.png...](5) here''
   \<and> insert_placeholder (placeholder_text ''photo.png'' 5) False (Some (linkString_of ''photo.png''))
      (leaf_editor (example_leaf ''![](photo.png)'')) = leaf_editor (example_leaf ''![](photo.png)'')"
proof -
  have 1: "split_first (getValue (leaf_editor (example_leaf ''see ![[photo.png]] here'')))
      (linkString_of ''photo.png'') = Some (''see '', '' here'')"
    by (simp add: run_defs example_defs)
  have 2: "linkString_of ''photo.png'' \<noteq> []" by (simp add: linkString_of_def)
  have 3: "CHR ''$'' \<notin> set ''photo.png''" by simp
  have 4: "\<not> str_includes (getValue (leaf_editor (example_leaf ''![](photo.png)'')))
      (linkString_of ''photo.png'')"
    by (simp add: run_defs example_defs)
  have 5: "placeholder_text ''photo.png'' 5 = ''![Uploading photo.png...](5)''"
    by (simp add: run_defs)
  show ?thesis
    using 1 2 3 4 5
      placeholder_present_after_insertion [of "placeholder_text ''photo.png'' 5" None
        "leaf_editor (example_leaf ''see ![[photo.png]] here'')" "linkString_of ''photo.png''"
        "''see ''" "'' here''" "''photo.png''" 5]
      placeholder_present_after_insertion [of "placeholder_text ''photo.png'' 5" None
        "leaf_editor (example_leaf ''![](photo.png)'')" "linkString_of ''photo.png''"
        "[]" "[]" "''photo.png''" 5]
    by simp
qed

section \<open>The second edit: embed or failure marker\<close>

lemma upload_done_replaces:
  assumes "split_first (getValue ed) placeholder = Some (b, a)"
    and "CHR ''$'' \<notin> set embedCode"
  shows "doc (final (upload_done placeholder embedCode fileName reqs ed)) = b @ embedCode @ a"
proof -
  have "getValue ed = b @ placeholder @ a" using assms(1) by (rule split_first_Some)
  then have "str_includes (getValue ed) placeholder"
    using str_includes_middle [of b placeholder a] by simp
  then show ?thesis
    using assms by (simp add: upload_done_def Let_def setValue_def str_replace_literal)
qed

lemma processUpload_embeds:
  assumes "\<not> 25 * (1024 * 1024) < fsize f"
    and "trim (githubUser st) \<noteq> []" and "trim (githubRepo st) \<noteq> []"
    and "trim (githubToken st) \<noteq> []"
    and "base64Data_of ev f = Inr b64"
    and "requestUrl_result ev = Response 200 \<or> requestUrl_result ev = Response 201"
    and "ed2 = concurrent_edit ev
           (insert_placeholder (placeholder_text (name f) (now_placeholder ev))
              isPasteEvent linkToReplace ed)"
    and "split_first (getValue ed2) (placeholder_text (name f) (now_placeholder ev)) = Some (b, a)"
    and "rawUrl = rawUrl_of (trim (githubUser st)) (trim (githubRepo st)) (trim (branch st))
             (path_of (folderPath st) (now_fileName ev) (name f))"
    and "CHR ''$'' \<notin> set (embedCode_of (ftype f) rawUrl)"
  shows "success (processUpload ev st f ed isPasteEvent linkToReplace) = True
     \<and> doc (final (processUpload ev st f ed isPasteEvent linkToReplace)) =
         b @ (if startsWith (ftype f) ''image/'' then image_embed rawUrl else video_embed rawUrl) @ a"
proof -
  have "doc (final (processUpload ev st f ed isPasteEvent linkToReplace)) =
      b @ embedCode_of (ftype f) rawUrl @ a"
    using assms(7-10)
    by (simp add: processUpload_uploaded [OF assms(1-6)] upload_done_replaces)
  moreover have "success (processUpload ev st f ed isPasteEvent linkToReplace) = True"
    by (simp add: processUpload_uploaded [OF assms(1-6)] upload_done_def Let_def)
  ultimately show ?thesis by (simp add: embedCode_of_def)
qed

text \<open>
  Claim C1 at a file name with two dollar signs. The file is uploaded under its name, but
  \<^verbatim>\<open>replace\<close> reads \<^verbatim>\<open>$$\<close> in the embed code as one dollar sign, so the address written
  into the note is not the raw address of the uploaded file. Both paste handlers do so.
  (\<open>processUpload_embeds\<close> above is the claim for an embed code without a dollar sign.)
\<close>

theorem dollar_in_name_changes_embed:
  "doc (final (processUpload example_env example_settings (example_file\<lparr>name := ''a$$b.png''\<rparr>)
      example_editor True None)) =
     ''a![](https://raw.githubusercontent.com/octo/notes/main/assets/7-a$b.png)b''
   \<and> map req_url (requests (processUpload example_env example_settings
      (example_file\<lparr>name := ''a$$b.png''\<rparr>) example_editor True None)) =
     [''https://api.github.com/repos/octo/notes/contents/assets/7-a$$b.png'']
   \<and> rawUrl_of ''octo'' ''notes'' ''main'' (path_of ''assets/'' 7 ''a$$b.png'') =
     ''https://raw.githubusercontent.com/octo/notes/main/assets/7-a$$b.png''
   \<and> \<not> str_includes (doc (final (processUpload example_env example_settings
      (example_file\<lparr>name := ''a$$b.png''\<rparr>) example_editor True None)))
      (rawUrl_of ''octo'' ''notes'' ''main'' (path_of ''assets/'' 7 ''a$$b.png''))
   \<and> doc (lg_final (handlePaste_legacy example_env example_settings
      [example_file\<lparr>name := ''a$$b.png''\<rparr>] example_editor)) =
     ''a![](https://raw.githubusercontent.com/octo/notes/main/assets/7-a$b.png)b''"
proof -
  have a: "processUpload example_env example_settings (example_file\<lparr>name := ''a$$b.png''\<rparr>)
      example_editor True None =
    \<lparr>success = True,
     final = \<lparr>doc = ''a![](https://raw.githubusercontent.com/octo/notes/main/assets/7-a$b.png)b'',
        sel_from = 28, sel_to = 28\<rparr>,
     notices = [Uploaded ''7-a$$b.png''],
     requests = [\<lparr>req_url = ''https://api.github.com/repos/octo/notes/contents/assets/7-a$$b.png'',
        req_method = ''PUT'', req_authorization = ''token t0k'',
        req_message = ''Upload assets/7-a$$b.png'', req_content = Some ''QUJD'',
        req_branch = ''main''\<rparr>]\<rparr>"
    by (simp add: run_defs example_defs)
  have b: "rawUrl_of ''octo'' ''notes'' ''main'' (path_of ''assets/'' 7 ''a$$b.png'') =
     ''https://raw.githubusercontent.com/octo/notes/main/assets/7-a$$b.png''"
    by (simp add: run_defs)
  have c: "\<not> str_includes ''a![](https://raw.githubusercontent.com/octo/notes/main/assets/7-a$b.png)b''
      ''https://raw.githubusercontent.com/octo/notes/main/assets/7-a$$b.png''"
    by simp
  have d: "doc (lg_final (handlePaste_legacy example_env example_settings
      [example_file\<lparr>name := ''a$$b.png''\<rparr>] example_editor)) =
     ''a![](https://raw.githubusercontent.com/octo/notes/main/assets/7-a$b.png)b''"
    by (simp add: run_defs example_defs)
  show ?thesis
    unfolding a b d using c by simp
qed

lemma processUpload_failed:
  assumes "\<not> 25 * (1024 * 1024) < fsize f"
    and "trim (githubUser st) \<noteq> []" and "trim (githubRepo st) \<noteq> []"
    and "trim (githubToken st) \<noteq> []"
    and "base64Data_of ev f = Inl e \<or> uploadToGithub (requestUrl_result ev) = Inl e"
  shows "\<exists>e' reqs. processUpload ev st f ed isPasteEvent linkToReplace =
           upload_failed (placeholder_text (name f) (now_placeholder ev)) (name f) e' reqs
             (concurrent_edit ev
               (insert_placeholder (placeholder_text (name f) (now_placeholder ev))
                  isPasteEvent linkToReplace ed))"
  using assms by (auto simp: processUpload_def Let_def split: sum.splits)

text \<open>
  Claim C6, as stated, fails in the paste handler of the second source file: its failure
  marker carries the message of the error, not the name of the item.
\<close>

theorem failure_marker_counterexample:
  "doc (lg_final (handlePaste_legacy
      (example_env\<lparr>requestUrl_result :=
         Throws \<lparr>err_status = Some 401, err_message = ''Request failed, status 401''\<rparr>\<rparr>)
      example_settings [example_file] example_editor)) = ''a[Upload Failed: Invalid Token (401).]b''
   \<and> \<not> str_includes (doc (lg_final (handlePaste_legacy
      (example_env\<lparr>requestUrl_result :=
         Throws \<lparr>err_status = Some 401, err_message = ''Request failed, status 401''\<rparr>\<rparr>)
      example_settings [example_file] example_editor))) (name example_file)"
proof -
  have a: "doc (lg_final (handlePaste_legacy
      (example_env\<lparr>requestUrl_result :=
         Throws \<lparr>err_status = Some 401, err_message = ''Request failed, status 401''\<rparr>\<rparr>)
      example_settings [example_file] example_editor)) = ''a[Upload Failed: Invalid Token (401).]b''"
    by (simp add: run_defs example_defs)
  have b: "\<not> str_includes ''a[Upload Failed: Invalid Token (401).]b'' (name example_file)"
    by (simp add: example_file_def)
  show ?thesis unfolding a using b by simp
qed

text \<open>
  Claim C6, amended. In \<^verbatim>\<open>processUpload\<close>, when the encoding or the upload fails after the
  two checks have passed, the text still contains the placeholder and the name of the
  item has no dollar sign, then the first occurrence of the placeholder is replaced by
  \<^verbatim>\<open>[Upload Failed: <name>]\<close>, which contains the name, and \<open>false\<close> is returned.
\<close>

theorem failure_marker_replaces_placeholder:
  assumes "\<not> 25 * (1024 * 1024) < fsize f"
    and "trim (githubUser st) \<noteq> []" and "trim (githubRepo st) \<noteq> []"
    and "trim (githubToken st) \<noteq> []"
    and "base64Data_of ev f = Inl e \<or> uploadToGithub (requestUrl_result ev) = Inl e"
    and "ed2 = concurrent_edit ev
           (insert_placeholder (placeholder_text (name f) (now_placeholder ev))
              isPasteEvent linkToReplace ed)"
    and "split_first (getValue ed2) (placeholder_text (name f) (now_placeholder ev)) = Some (b, a)"
    and "CHR ''$'' \<notin> set (name f)"
  shows "success (processUpload ev st f ed isPasteEvent linkToReplace) = False
     \<and> (\<exists>m. notices (processUpload ev st f ed isPasteEvent linkToReplace) = [UploadFailed m])
     \<and> doc (final (processUpload ev st f ed isPasteEvent linkToReplace)) =
         b @ ''[Upload Failed: '' @ name f @ '']'' @ a
     \<and> str_includes (doc (final (processUpload ev st f ed isPasteEvent linkToReplace))) (name f)"
proof -
  obtain e' reqs where out: "processUpload ev st f ed isPasteEvent linkToReplace =
      upload_failed (placeholder_text (name f) (now_placeholder ev)) (name f) e' reqs ed2"
    using processUpload_failed [OF assms(1-5)] assms(6) by blast
  have lit: "CHR ''$'' \<notin> set (''[Upload Failed: '' @ name f @ '']'')"
    using assms(8) by simp
  have d: "doc (final (processUpload ev st f ed isPasteEvent linkToReplace)) =
      b @ (''[Upload Failed: '' @ name f @ '']'') @ a"
    unfolding out upload_failed_def setValue_def
    using str_replace_literal [OF assms(7) lit] by simp
  have "str_includes ((b @ ''[Upload Failed: '') @ name f @ ('']'' @ a)) (name f)"
    by (rule str_includes_middle)
  then have "str_includes (doc (final (processUpload ev st f ed isPasteEvent linkToReplace))) (name f)"
    using d by simp
  moreover have "success (processUpload ev st f ed isPasteEvent linkToReplace) = False"
    by (simp add: out upload_failed_def)
  moreover have "\<exists>m. notices (processUpload ev st f ed isPasteEvent linkToReplace) = [UploadFailed m]"
    by (simp add: out upload_failed_def)
  ultimately show ?thesis using d by simp
qed

theorem failure_marker_replaces_placeholder_witness:
  "success (processUpload (example_env\<lparr>requestUrl_result := Response 500\<rparr>) example_settings
      example_file example_editor True None) = False
   \<and> doc (final (processUpload (example_env\<lparr>requestUrl_result := Response 500\<rparr>) example_settings
      example_file example_editor True None)) = ''a[Upload Failed: My Photo.png]b''"
proof -
  let ?ev = "example_env\<lparr>requestUrl_result := Response 500\<rparr>"
  let ?ed2 = "\<lparr>doc = ''a![Uploading My Photo.png...](5)b'', sel_from = 32, sel_to = 32\<rparr>"
  have 1: "\<not> 25 * (1024 * 1024) < fsize example_file" by (simp add: example_file_def)
  have 2: "trim (githubUser example_settings) \<noteq> []" by (simp add: example_settings_def trim_def is_space_def)
  have 3: "trim (githubRepo example_settings) \<noteq> []" by (simp add: example_settings_def trim_def is_space_def)
  have 4: "trim (githubToken example_settings) \<noteq> []" by (simp add: example_settings_def trim_def is_space_def)
  have 5: "base64Data_of ?ev example_file = Inl (Error ''GitHub Status 500'')
      \<or> uploadToGithub (requestUrl_result ?ev) = Inl (Error ''GitHub Status 500'')"
    by (simp add: run_defs example_defs)
  have 6: "?ed2 = concurrent_edit ?ev
           (insert_placeholder (placeholder_text (name example_file) (now_placeholder ?ev))
              True None example_editor)"
    by (simp add: run_defs example_defs)
  have 7: "split_first (getValue ?ed2) (placeholder_text (name example_file) (now_placeholder ?ev))
      = Some (''a'', ''b'')"
    by (simp add: run_defs example_defs)
  have 8: "CHR ''$'' \<notin> set (name example_file)" by (simp add: example_file_def)
  show ?thesis
    using failure_marker_replaces_placeholder [OF 1 2 3 4 5 6 7 8]
    by (simp add: example_file_def)
qed

end
